theory Spec2Isabelle
  imports Main "HOL-Library.Word"
begin

section \<open>Metrics registration with a keyspace label (util/metricsutil/common.go)\<close>

text \<open>
  The file has two entry points, \<open>RegisterMetrics\<close> and \<open>RegisterMetricsForBR\<close>, a common
  tail \<open>registerMetrics\<close> and the resolver \<open>getKeyspaceMeta\<close>. Everything they do is a call
  into another package, so the model records each such call as an event of a trace, in
  program order, and threads the trace through the functions. A Go \<open>error\<close> is modelled by
  its message, and a nilable value by an \<open>option\<close> (\<open>None\<close> is \<open>nil\<close>).
\<close>

subsection \<open>Data\<close>

type_synonym error = string

text \<open>\<open>keyspacepb.KeyspaceMeta\<close>: only \<open>GetId()\<close> (a \<open>uint32\<close>) is read by this file.\<close>

record KeyspaceMeta =
  GetId :: "32 word"
  Name :: string

text \<open>The fields of the global configuration that the file reads.\<close>

record PDClient =
  PDServerTimeout :: "64 word"

record Security =
  ClusterSSLCA :: string
  ClusterSSLCert :: string
  ClusterSSLKey :: string

record Config =
  KeyspaceName :: string
  Store :: string
  Path :: string
  PDClient :: PDClient
  Security :: Security

text \<open>\<open>pd.SecurityOption\<close>, as the entry points fill it.\<close>

record SecurityOption =
  CAPath :: string
  CertPath :: string
  KeyPath :: string

text \<open>
  The metrics initializers called by \<open>registerMetrics\<close>, one constructor per call, named
  package first.
\<close>

datatype initializer =
    metrics_InitMetrics
  | metrics_RegisterMetrics
  | copr_InitMetricsVars
  | domain_InitMetricsVars
  | executor_InitMetricsVars
  | infoschema_InitMetricsVars
  | isolation_InitMetricsVars
  | plannercore_InitMetricsVars
  | server_InitMetricsVars
  | session_InitMetricsVars
  | statshandler_InitMetricsVars
  | topsqlreporter_InitMetricsVars
  | ttlmetrics_InitMetricsVars
  | txninfo_InitMetricsVars
  | unimetrics_RegisterMetrics

text \<open>
  The observable calls. \<open>PdNewClient\<close> records a call of \<open>pd.NewClient\<close> with its
  arguments (whether or not it succeeds), \<open>PdLoadKeyspace\<close> a call of
  \<open>pdCli.LoadKeyspace\<close>, \<open>PdClose\<close> a call of \<open>pdCli.Close\<close>, \<open>Sleep\<close> a wait of the
  retry loop, \<open>SetKeyspaceLabels\<close> the call of \<open>metrics.SetKeyspaceLabels\<close> with the label
  value, and \<open>Init\<close> one initializer call.
\<close>

datatype event =
    PdNewClient "string list" SecurityOption "64 word"
  | PdLoadKeyspace string
  | PdClose
  | Sleep nat
  | SetKeyspaceLabels string
  | Init initializer

type_synonym world = "event list"

text \<open>
  What the file uses and does not define. \<open>GetGlobalConfig\<close> is the process-wide
  configuration returned by \<open>config.GetGlobalConfig()\<close>. \<open>IsKeyspaceNameEmpty\<close>,
  \<open>ParsePath\<close> (of which the file keeps the addresses and the error),
  \<open>IsNotBootstrappedError\<close> and \<open>IsKeyspaceNotExistError\<close> are functions of other
  packages, taken as they come. \<open>NewClient\<close> says whether \<open>pd.NewClient\<close> fails on given
  arguments. \<open>LoadKeyspace\<close> is the behaviour of the metadata service: the pair returned by
  a lookup, which may depend on everything that happened before it. \<open>DefaultMaxRetries\<close> and
  \<open>RetryInterval\<close> are the two constants of package \<open>util\<close> passed to the retry loop.
  \<open>MapUnicodeToLower\<close> is what \<open>strings.ToLower\<close> does on a string that is not pure ASCII.
\<close>

record env =
  GetGlobalConfig :: Config
  IsKeyspaceNameEmpty :: "string \<Rightarrow> bool"
  ParsePath :: "string \<Rightarrow> string list \<times> error option"
  NewClient :: "string list \<Rightarrow> SecurityOption \<Rightarrow> 64 word \<Rightarrow> error option"
  LoadKeyspace :: "world \<Rightarrow> string \<Rightarrow> KeyspaceMeta option \<times> error option"
  IsNotBootstrappedError :: "error option \<Rightarrow> bool"
  IsKeyspaceNotExistError :: "error option \<Rightarrow> bool"
  DefaultMaxRetries :: nat
  RetryInterval :: nat
  MapUnicodeToLower :: "string \<Rightarrow> string"

subsection \<open>Library functions\<close>

text \<open>
  \<open>strings.ToLower\<close>: on a string whose bytes are all below \<open>0x80\<close> each of \<open>A\<close>..\<open>Z\<close>
  becomes the matching lower-case letter and every other byte stays; any other string goes
  through the Unicode tables.
\<close>

definition isASCII :: "char \<Rightarrow> bool" where
  "isASCII c = ((of_char c :: nat) < 128)"

definition lowerASCII :: "char \<Rightarrow> char" where
  "lowerASCII c =
     (if 65 \<le> (of_char c :: nat) \<and> (of_char c :: nat) \<le> 90
      then char_of ((of_char c :: nat) + 32) else c)"

definition ToLower :: "env \<Rightarrow> string \<Rightarrow> string" where
  "ToLower env s =
     (if list_all isASCII s then map lowerASCII s else MapUnicodeToLower env s)"

text \<open>
  \<open>fmt.Sprint\<close> of a \<open>uint32\<close>: the decimal digits of the number, most significant first.
\<close>

fun FormatUint :: "nat \<Rightarrow> string" where
  "FormatUint n =
     (if n < 10 then [char_of (48 + n)]
      else FormatUint (n div 10) @ [char_of (48 + n mod 10)])"

declare FormatUint.simps [simp del]

definition Sprint :: "32 word \<Rightarrow> string" where
  "Sprint x = FormatUint (unat x)"

text \<open>\<open>time.Second\<close>, in nanoseconds; a \<open>time.Duration\<close> is an \<open>int64\<close>.\<close>

definition Second :: "64 word" where
  "Second = 1000000000"

subsection \<open>The retry loop\<close>

text \<open>
  Modelled from the spec: \<open>util.RunWithRetry\<close> is not among the sources. The spec has the
  lookup retried while it fails with a retryable condition, up to a fixed maximum attempt
  count, waiting a fixed interval between attempts; a success, any other failure and the
  exhaustion of the attempts end the loop, which then returns the last error seen. The
  callback returns whether its error is retryable, and the error; it works on the variables
  it captures and on the trace.
\<close>

fun RunWithRetry ::
  "nat \<Rightarrow> nat \<Rightarrow> ('l \<times> world \<Rightarrow> (bool \<times> error option) \<times> ('l \<times> world)) \<Rightarrow>
   'l \<times> world \<Rightarrow> error option \<times> ('l \<times> world)" where
  "RunWithRetry 0 backoff f s = (None, s)"
| "RunWithRetry (Suc n) backoff f s =
     (case f s of
        ((retryAble, err), (l, w)) \<Rightarrow>
          if err = None \<or> \<not> retryAble then (err, (l, w))
          else if n = 0 then (err, (l, w))
          else RunWithRetry n backoff f (l, w @ [Sleep backoff]))"

subsection \<open>The functions of the file\<close>

text \<open>
  The closure passed to the retry loop by \<open>getKeyspaceMeta\<close>. It assigns the captured
  variable \<open>keyspaceMeta\<close>, the first component of the state.
\<close>

definition loadKeyspaceOnce ::
  "env \<Rightarrow> string \<Rightarrow> KeyspaceMeta option \<times> world \<Rightarrow>
   (bool \<times> error option) \<times> (KeyspaceMeta option \<times> world)" where
  "loadKeyspaceOnce env keyspaceName s =
     (case s of
        (keyspaceMeta0, w) \<Rightarrow>
          (case LoadKeyspace env w keyspaceName of
             (keyspaceMeta, errInner) \<Rightarrow>
               if IsNotBootstrappedError env errInner \<or> IsKeyspaceNotExistError env errInner
               then ((True, errInner), (keyspaceMeta, w @ [PdLoadKeyspace keyspaceName]))
               else ((False, errInner), (keyspaceMeta, w @ [PdLoadKeyspace keyspaceName]))))"

definition getKeyspaceMeta ::
  "env \<Rightarrow> string \<Rightarrow> world \<Rightarrow> (KeyspaceMeta option \<times> error option) \<times> world" where
  "getKeyspaceMeta env keyspaceName w =
     (case RunWithRetry (DefaultMaxRetries env) (RetryInterval env)
             (loadKeyspaceOnce env keyspaceName) (None, w) of
        (err, (keyspaceMeta, w')) \<Rightarrow>
          if err \<noteq> None then ((None, err), w') else ((keyspaceMeta, None), w'))"

text \<open>The initializers that \<open>registerMetrics\<close> calls unconditionally, in the order of the file.\<close>

definition initCalls :: "event list" where
  "initCalls =
     [Init metrics_InitMetrics, Init metrics_RegisterMetrics,
      Init copr_InitMetricsVars, Init domain_InitMetricsVars, Init executor_InitMetricsVars,
      Init infoschema_InitMetricsVars, Init isolation_InitMetricsVars,
      Init plannercore_InitMetricsVars, Init server_InitMetricsVars,
      Init session_InitMetricsVars, Init statshandler_InitMetricsVars,
      Init topsqlreporter_InitMetricsVars, Init ttlmetrics_InitMetricsVars,
      Init txninfo_InitMetricsVars]"

definition registerMetrics :: "env \<Rightarrow> KeyspaceMeta option \<Rightarrow> world \<Rightarrow> error option \<times> world" where
  "registerMetrics env keyspaceMeta w =
     (let w1 = (case keyspaceMeta of
                  Some m \<Rightarrow> w @ [SetKeyspaceLabels (Sprint (GetId m))]
                | None \<Rightarrow> w);
          w2 = w1 @ initCalls;
          w3 = (if Store (GetGlobalConfig env) = ''unistore''
                then w2 @ [Init unimetrics_RegisterMetrics] else w2)
      in (None, w3))"

text \<open>
  \<open>RegisterMetrics\<close>. The deferred \<open>pdCli.Close()\<close> runs when the function returns, after
  the value of the \<open>return\<close> statement has been computed.
\<close>

definition RegisterMetrics :: "env \<Rightarrow> world \<Rightarrow> error option \<times> world" where
  "RegisterMetrics env w =
     (let cfg = GetGlobalConfig env in
      if IsKeyspaceNameEmpty env (KeyspaceName cfg) \<or> ToLower env (Store cfg) \<noteq> ''tikv''
      then registerMetrics env None w
      else
        (case ParsePath env (''tikv://'' @ Path cfg) of
           (pdAddrs, Some err) \<Rightarrow> (Some err, w)
         | (pdAddrs, None) \<Rightarrow>
             (let timeoutSec = PDServerTimeout (PDClient cfg) * Second;
                  opt = \<lparr>CAPath = ClusterSSLCA (Security cfg),
                         CertPath = ClusterSSLCert (Security cfg),
                         KeyPath = ClusterSSLKey (Security cfg)\<rparr>;
                  w1 = w @ [PdNewClient pdAddrs opt timeoutSec]
              in case NewClient env pdAddrs opt timeoutSec of
                   Some err \<Rightarrow> (Some err, w1)
                 | None \<Rightarrow>
                     (case (case getKeyspaceMeta env (KeyspaceName cfg) w1 of
                              ((keyspaceMeta, Some err), w2) \<Rightarrow> (Some err, w2)
                            | ((keyspaceMeta, None), w2) \<Rightarrow> registerMetrics env keyspaceMeta w2) of
                        (r, w3) \<Rightarrow> (r, w3 @ [PdClose])))))"

text \<open>\<open>RegisterMetricsForBR\<close>: the addresses and the keyspace name are arguments.\<close>

definition RegisterMetricsForBR ::
  "env \<Rightarrow> string list \<Rightarrow> string \<Rightarrow> world \<Rightarrow> error option \<times> world" where
  "RegisterMetricsForBR env pdAddrs keyspaceName w =
     (if IsKeyspaceNameEmpty env keyspaceName
      then registerMetrics env None w
      else
        (let timeoutSec = 10 * Second;
             opt = \<lparr>CAPath = [], CertPath = [], KeyPath = []\<rparr>;
             w1 = w @ [PdNewClient pdAddrs opt timeoutSec]
         in case NewClient env pdAddrs opt timeoutSec of
              Some err \<Rightarrow> (Some err, w1)
            | None \<Rightarrow>
                (case (case getKeyspaceMeta env keyspaceName w1 of
                         ((keyspaceMeta, Some err), w2) \<Rightarrow> (Some err, w2)
                       | ((keyspaceMeta, None), w2) \<Rightarrow> registerMetrics env keyspaceMeta w2) of
                   (r, w3) \<Rightarrow> (r, w3 @ [PdClose]))))"

subsection \<open>Reading a trace\<close>

fun isLoadKeyspace :: "event \<Rightarrow> bool" where
  "isLoadKeyspace (PdLoadKeyspace n) = True"
| "isLoadKeyspace e = False"

fun isNewClient :: "event \<Rightarrow> bool" where
  "isNewClient (PdNewClient a s t) = True"
| "isNewClient e = False"

fun isInit :: "event \<Rightarrow> bool" where
  "isInit (Init i) = True"
| "isInit e = False"

fun isSetKeyspaceLabels :: "event \<Rightarrow> bool" where
  "isSetKeyspaceLabels (SetKeyspaceLabels v) = True"
| "isSetKeyspaceLabels e = False"

text \<open>The failure is one of the two conditions on which the closure asks for a retry.\<close>

definition retryable :: "env \<Rightarrow> error option \<Rightarrow> bool" where
  "retryable env err =
     (err \<noteq> None \<and> (IsNotBootstrappedError env err \<or> IsKeyspaceNotExistError env err))"

text \<open>Reading a decimal numeral back: the digits, and the number they denote.\<close>

definition isDigit :: "char \<Rightarrow> bool" where
  "isDigit c = (48 \<le> (of_char c :: nat) \<and> (of_char c :: nat) \<le> 57)"

definition decimalValue :: "string \<Rightarrow> nat" where
  "decimalValue s = foldl (\<lambda>a c. 10 * a + ((of_char c :: nat) - 48)) 0 s"

subsection \<open>A concrete environment\<close>

text \<open>
  A configuration with a keyspace on a \<open>tikv\<close> store, and a metadata service on which the
  lookup answers at once with identifier 42. The classification of errors follows the two
  error names of the metadata service, and three attempts keep the traces short. The
  scenarios below change one field at a time.
\<close>

definition exampleConfig :: Config where
  "exampleConfig =
     \<lparr>KeyspaceName = ''tenant_7'', Store = ''tikv'', Path = ''127.0.0.1:2379'',
      PDClient = \<lparr>PDServerTimeout = 3\<rparr>,
      Security = \<lparr>ClusterSSLCA = [], ClusterSSLCert = [], ClusterSSLKey = []\<rparr>\<rparr>"

definition exampleEnv :: env where
  "exampleEnv =
     \<lparr>GetGlobalConfig = exampleConfig,
      IsKeyspaceNameEmpty = (\<lambda>s. s = []),
      ParsePath = (\<lambda>p. ([''127.0.0.1:2379''], None)),
      NewClient = (\<lambda>a s t. None),
      LoadKeyspace = (\<lambda>h n. (Some \<lparr>GetId = 42, Name = n\<rparr>, None)),
      IsNotBootstrappedError = (\<lambda>e. e = Some ''NOT_BOOTSTRAPPED''),
      IsKeyspaceNotExistError = (\<lambda>e. e = Some ''ENTRY_NOT_FOUND''),
      DefaultMaxRetries = 3,
      RetryInterval = 500,
      MapUnicodeToLower = (\<lambda>s. s)\<rparr>"

section \<open>Auxiliary lemmas\<close>

subsection \<open>The retry loop on the lookup closure\<close>

text \<open>One turn of the loop, with the closure unfolded.\<close>

lemma retry_step:
  "RunWithRetry (Suc n) b (loadKeyspaceOnce env name) (l, w) =
     (case LoadKeyspace env w name of
        (m, e) \<Rightarrow>
          if retryable env e \<and> n \<noteq> 0
          then RunWithRetry n b (loadKeyspaceOnce env name)
                 (m, w @ [PdLoadKeyspace name, Sleep b])
          else (e, (m, w @ [PdLoadKeyspace name])))"
  by (auto simp: loadKeyspaceOnce_def retryable_def split: prod.splits)

text \<open>The loop only appends lookups and waits to the trace.\<close>

lemma retry_extends:
  "RunWithRetry n b (loadKeyspaceOnce env name) (l, w) = (e, (m, w')) \<Longrightarrow>
   \<exists>evs. w' = w @ evs \<and> set evs \<subseteq> {PdLoadKeyspace name, Sleep b}"
proof (induction n arbitrary: l w)
  case 0
  then show ?case by simp
next
  case (Suc n)
  obtain m1 e1 where r: "LoadKeyspace env w name = (m1, e1)"
    by (cases "LoadKeyspace env w name")
  show ?case
  proof (cases "retryable env e1 \<and> n \<noteq> 0")
    case True
    with Suc.prems r
    have "RunWithRetry n b (loadKeyspaceOnce env name)
            (m1, w @ [PdLoadKeyspace name, Sleep b]) = (e, (m, w'))"
      by (simp add: retry_step del: RunWithRetry.simps)
    from Suc.IH[OF this] obtain evs
      where "w' = (w @ [PdLoadKeyspace name, Sleep b]) @ evs"
        and "set evs \<subseteq> {PdLoadKeyspace name, Sleep b}"
      by blast
    then show ?thesis
      by (intro exI[of _ "[PdLoadKeyspace name, Sleep b] @ evs"]) auto
  next
    case False
    with Suc.prems r have "w' = w @ [PdLoadKeyspace name]"
      by (auto simp add: retry_step simp del: RunWithRetry.simps)
    then show ?thesis by simp
  qed
qed

text \<open>A lookup that is not the last event of the loop failed with a retryable error.\<close>

lemma retry_only_retryable:
  "RunWithRetry n b (loadKeyspaceOnce env name) (l, w) =
     (e, (m, w @ pre @ PdLoadKeyspace name # rest)) \<Longrightarrow>
   rest \<noteq> [] \<Longrightarrow> retryable env (snd (LoadKeyspace env (w @ pre) name))"
proof (induction n arbitrary: l w pre)
  case 0
  then show ?case by simp
next
  case (Suc n)
  obtain m1 e1 where r: "LoadKeyspace env w name = (m1, e1)"
    by (cases "LoadKeyspace env w name")
  let ?w2 = "w @ [PdLoadKeyspace name, Sleep b]"
  show ?case
  proof (cases "retryable env e1 \<and> n \<noteq> 0")
    case True
    with Suc.prems r
    have run: "RunWithRetry n b (loadKeyspaceOnce env name) (m1, ?w2) =
                 (e, (m, w @ pre @ PdLoadKeyspace name # rest))"
      by (simp add: retry_step del: RunWithRetry.simps)
    from retry_extends[OF this] obtain evs
      where evs: "w @ pre @ PdLoadKeyspace name # rest = ?w2 @ evs"
      by blast
    show ?thesis
    proof (cases pre)
      case Nil
      with True r show ?thesis by simp
    next
      case (Cons x pre')
      with evs have x: "x = PdLoadKeyspace name"
        and "pre' @ PdLoadKeyspace name # rest = Sleep b # evs"
        by auto
      then obtain pre'' where p: "pre' = Sleep b # pre''"
        by (cases pre') auto
      with Cons x have eq: "w @ pre = ?w2 @ pre''" by simp
      from run have "RunWithRetry n b (loadKeyspaceOnce env name) (m1, ?w2) =
                       (e, (m, ?w2 @ pre'' @ PdLoadKeyspace name # rest))"
        using Cons x p by simp
      from Suc.IH[OF this Suc.prems(2)] show ?thesis using eq by simp
    qed
  next
    case False
    with Suc.prems r
    have "w @ pre @ PdLoadKeyspace name # rest = w @ [PdLoadKeyspace name]"
      by (auto simp add: retry_step simp del: RunWithRetry.simps)
    with Suc.prems(2) show ?thesis by (cases pre) auto
  qed
qed

text \<open>
  When every lookup fails with a retryable error, the loop makes \<open>n\<close> lookups and returns
  the error of the last one.
\<close>

lemma retry_always:
  "\<forall>h. retryable env (snd (LoadKeyspace env h name)) \<Longrightarrow>
   \<exists>evs m. RunWithRetry n b (loadKeyspaceOnce env name) (l, w) =
             (if n = 0 then None else snd (LoadKeyspace env (butlast (w @ evs)) name),
              (m, w @ evs))
         \<and> length (filter isLoadKeyspace evs) = n
         \<and> (n \<noteq> 0 \<longrightarrow> evs \<noteq> [] \<and> last evs = PdLoadKeyspace name)"
proof (induction n arbitrary: l w)
  case 0
  then show ?case by simp
next
  case (Suc n)
  obtain m1 e1 where r: "LoadKeyspace env w name = (m1, e1)"
    by (cases "LoadKeyspace env w name")
  with Suc.prems have re: "retryable env e1" by (metis snd_conv)
  let ?w2 = "w @ [PdLoadKeyspace name, Sleep b]"
  show ?case
  proof (cases "n = 0")
    case True
    with r re show ?thesis
      by (intro exI[of _ "[PdLoadKeyspace name]"] exI[of _ m1])
         (simp add: retry_step del: RunWithRetry.simps)
  next
    case False
    from Suc.IH[OF Suc.prems, of m1 ?w2] False
    obtain evs m
      where run: "RunWithRetry n b (loadKeyspaceOnce env name) (m1, ?w2) =
                    (snd (LoadKeyspace env (butlast (?w2 @ evs)) name), (m, ?w2 @ evs))"
        and len: "length (filter isLoadKeyspace evs) = n"
        and ne: "evs \<noteq> []" and la: "last evs = PdLoadKeyspace name"
      by auto
    show ?thesis
      apply (rule exI[of _ "[PdLoadKeyspace name, Sleep b] @ evs"])
      apply (rule exI[of _ m])
      using r re False run len ne la by (simp add: retry_step del: RunWithRetry.simps)
  qed
qed

text \<open>The loop returns what its last lookup returned.\<close>

lemma retry_returns_last:
  "RunWithRetry n b (loadKeyspaceOnce env name) (l, w) =
     (e, (m, w @ pre @ [PdLoadKeyspace name])) \<Longrightarrow>
   LoadKeyspace env (w @ pre) name = (m, e)"
proof (induction n arbitrary: l w pre)
  case 0
  then show ?case by simp
next
  case (Suc n)
  obtain m1 e1 where r: "LoadKeyspace env w name = (m1, e1)"
    by (cases "LoadKeyspace env w name")
  let ?w2 = "w @ [PdLoadKeyspace name, Sleep b]"
  show ?case
  proof (cases "retryable env e1 \<and> n \<noteq> 0")
    case True
    with Suc.prems r
    have run: "RunWithRetry n b (loadKeyspaceOnce env name) (m1, ?w2) =
                 (e, (m, w @ pre @ [PdLoadKeyspace name]))"
      by (simp add: retry_step del: RunWithRetry.simps)
    from retry_extends[OF this] obtain evs
      where evs: "w @ pre @ [PdLoadKeyspace name] = ?w2 @ evs"
      by blast
    then have "pre @ [PdLoadKeyspace name] = PdLoadKeyspace name # Sleep b # evs" by simp
    then obtain pre'' where p: "pre = PdLoadKeyspace name # Sleep b # pre''"
      by (cases pre; cases "tl pre") auto
    from run have "RunWithRetry n b (loadKeyspaceOnce env name) (m1, ?w2) =
                     (e, (m, ?w2 @ pre'' @ [PdLoadKeyspace name]))"
      using p by simp
    from Suc.IH[OF this] show ?thesis using p by simp
  next
    case False
    with Suc.prems r
    have "w @ pre @ [PdLoadKeyspace name] = w @ [PdLoadKeyspace name] \<and> e = e1 \<and> m = m1"
      by (auto simp add: retry_step simp del: RunWithRetry.simps)
    with r show ?thesis by simp
  qed
qed

subsection \<open>The resolver\<close>

lemma getKeyspaceMeta_cases:
  "\<exists>evs. set evs \<subseteq> {PdLoadKeyspace name, Sleep (RetryInterval env)} \<and>
         ((\<exists>e. getKeyspaceMeta env name w = ((None, Some e), w @ evs)) \<or>
          (\<exists>m. getKeyspaceMeta env name w = ((m, None), w @ evs)))"
proof -
  obtain e m w' where run:
    "RunWithRetry (DefaultMaxRetries env) (RetryInterval env)
       (loadKeyspaceOnce env name) (None, w) = (e, (m, w'))"
    by (metis prod.exhaust)
  from retry_extends[OF run] obtain evs
    where "w' = w @ evs" and "set evs \<subseteq> {PdLoadKeyspace name, Sleep (RetryInterval env)}"
    by blast
  with run show ?thesis
    by (cases e) (auto simp: getKeyspaceMeta_def)
qed

lemma getKeyspaceMeta_first_fatal:
  assumes "0 < DefaultMaxRetries env"
    and "LoadKeyspace env w name = (m, Some e)"
    and "\<not> IsNotBootstrappedError env (Some e)"
    and "\<not> IsKeyspaceNotExistError env (Some e)"
  shows "getKeyspaceMeta env name w = ((None, Some e), w @ [PdLoadKeyspace name])"
proof -
  from assms(1) obtain n where n: "DefaultMaxRetries env = Suc n"
    by (cases "DefaultMaxRetries env") auto
  from assms(3,4) have "\<not> retryable env (Some e)" by (simp add: retryable_def)
  with assms(2) n show ?thesis
    by (simp add: getKeyspaceMeta_def retry_step del: RunWithRetry.simps)
qed

lemma getKeyspaceMeta_first_success:
  assumes "0 < DefaultMaxRetries env"
    and "LoadKeyspace env w name = (m, None)"
  shows "getKeyspaceMeta env name w = ((m, None), w @ [PdLoadKeyspace name])"
proof -
  from assms(1) obtain n where n: "DefaultMaxRetries env = Suc n"
    by (cases "DefaultMaxRetries env") auto
  have "\<not> retryable env None" by (simp add: retryable_def)
  with assms(2) n show ?thesis
    by (simp add: getKeyspaceMeta_def retry_step del: RunWithRetry.simps)
qed

lemma getKeyspaceMeta_only_retryable:
  assumes "getKeyspaceMeta env name w = (r, w @ pre @ PdLoadKeyspace name # rest)"
    and "rest \<noteq> []"
  shows "retryable env (snd (LoadKeyspace env (w @ pre) name))"
proof -
  obtain e m w' where run:
    "RunWithRetry (DefaultMaxRetries env) (RetryInterval env)
       (loadKeyspaceOnce env name) (None, w) = (e, (m, w'))"
    by (metis prod.exhaust)
  with assms(1) have "w' = w @ pre @ PdLoadKeyspace name # rest"
    by (auto simp: getKeyspaceMeta_def split: if_splits)
  with run assms(2) show ?thesis
    using retry_only_retryable by blast
qed

lemma getKeyspaceMeta_returns_last_error:
  assumes "getKeyspaceMeta env name w = (r, w @ pre @ [PdLoadKeyspace name])"
    and "LoadKeyspace env (w @ pre) name = (m, Some e)"
  shows "r = (None, Some e)"
proof -
  obtain e' m' w' where run:
    "RunWithRetry (DefaultMaxRetries env) (RetryInterval env)
       (loadKeyspaceOnce env name) (None, w) = (e', (m', w'))"
    by (metis prod.exhaust)
  with assms(1) have w': "w' = w @ pre @ [PdLoadKeyspace name]"
    by (auto simp: getKeyspaceMeta_def split: if_splits)
  from retry_returns_last[OF run[unfolded w']] assms(2) have "e' = Some e" by simp
  with run assms(1) show ?thesis by (simp add: getKeyspaceMeta_def)
qed

subsection \<open>The registration tail\<close>

lemma registerMetrics_eq:
  "registerMetrics env keyspaceMeta w =
     (None,
      w @ (case keyspaceMeta of
             Some m \<Rightarrow> [SetKeyspaceLabels (Sprint (GetId m))]
           | None \<Rightarrow> [])
        @ initCalls
        @ (if Store (GetGlobalConfig env) = ''unistore''
           then [Init unimetrics_RegisterMetrics] else []))"
  by (simp add: registerMetrics_def Let_def split: option.splits)

lemma initCalls_all_init: "list_all isInit initCalls"
  by (simp add: initCalls_def)

lemma initCalls_filters:
  "filter isNewClient initCalls = []" "filter isLoadKeyspace initCalls = []"
  "filter isSetKeyspaceLabels initCalls = []" "PdClose \<notin> set initCalls"
  by (simp_all add: initCalls_def)

lemma retry_events_filters:
  assumes "set evs \<subseteq> {PdLoadKeyspace name, Sleep b}"
  shows "filter isSetKeyspaceLabels evs = []" "filter isInit evs = []"
    "filter isNewClient evs = []" "PdClose \<notin> set evs"
  using assms by (auto simp: filter_empty_conv)

subsection \<open>The entry points, by the outcome of each step\<close>

lemma RegisterMetrics_skip:
  assumes "IsKeyspaceNameEmpty env (KeyspaceName (GetGlobalConfig env)) \<or>
           ToLower env (Store (GetGlobalConfig env)) \<noteq> ''tikv''"
  shows "RegisterMetrics env w = registerMetrics env None w"
  using assms by (auto simp: RegisterMetrics_def Let_def)

lemma RegisterMetrics_parse_error:
  assumes "\<not> (IsKeyspaceNameEmpty env (KeyspaceName (GetGlobalConfig env)) \<or>
              ToLower env (Store (GetGlobalConfig env)) \<noteq> ''tikv'')"
    and "ParsePath env (''tikv://'' @ Path (GetGlobalConfig env)) = (pdAddrs, Some e)"
  shows "RegisterMetrics env w = (Some e, w)"
  using assms by (simp add: RegisterMetrics_def Let_def)

lemma RegisterMetrics_client_error:
  assumes "\<not> (IsKeyspaceNameEmpty env (KeyspaceName (GetGlobalConfig env)) \<or>
              ToLower env (Store (GetGlobalConfig env)) \<noteq> ''tikv'')"
    and "ParsePath env (''tikv://'' @ Path (GetGlobalConfig env)) = (pdAddrs, None)"
    and "opt = \<lparr>CAPath = ClusterSSLCA (Security (GetGlobalConfig env)),
                CertPath = ClusterSSLCert (Security (GetGlobalConfig env)),
                KeyPath = ClusterSSLKey (Security (GetGlobalConfig env))\<rparr>"
    and "timeoutSec = PDServerTimeout (PDClient (GetGlobalConfig env)) * Second"
    and "NewClient env pdAddrs opt timeoutSec = Some e"
  shows "RegisterMetrics env w = (Some e, w @ [PdNewClient pdAddrs opt timeoutSec])"
  using assms by (simp add: RegisterMetrics_def Let_def)

lemma RegisterMetrics_resolve:
  assumes "\<not> (IsKeyspaceNameEmpty env (KeyspaceName (GetGlobalConfig env)) \<or>
              ToLower env (Store (GetGlobalConfig env)) \<noteq> ''tikv'')"
    and "ParsePath env (''tikv://'' @ Path (GetGlobalConfig env)) = (pdAddrs, None)"
    and "opt = \<lparr>CAPath = ClusterSSLCA (Security (GetGlobalConfig env)),
                CertPath = ClusterSSLCert (Security (GetGlobalConfig env)),
                KeyPath = ClusterSSLKey (Security (GetGlobalConfig env))\<rparr>"
    and "timeoutSec = PDServerTimeout (PDClient (GetGlobalConfig env)) * Second"
    and "NewClient env pdAddrs opt timeoutSec = None"
    and "getKeyspaceMeta env (KeyspaceName (GetGlobalConfig env))
           (w @ [PdNewClient pdAddrs opt timeoutSec]) = ((km, err), w2)"
  shows "RegisterMetrics env w =
           (case err of
              Some e \<Rightarrow> (Some e, w2 @ [PdClose])
            | None \<Rightarrow> (None, snd (registerMetrics env km w2) @ [PdClose]))"
  using assms
  by (simp add: RegisterMetrics_def Let_def registerMetrics_eq split: option.splits)

lemma RegisterMetricsForBR_skip:
  assumes "IsKeyspaceNameEmpty env keyspaceName"
  shows "RegisterMetricsForBR env pdAddrs keyspaceName w = registerMetrics env None w"
  using assms by (simp add: RegisterMetricsForBR_def)

lemma RegisterMetricsForBR_client_error:
  assumes "\<not> IsKeyspaceNameEmpty env keyspaceName"
    and "NewClient env pdAddrs \<lparr>CAPath = [], CertPath = [], KeyPath = []\<rparr> (10 * Second) = Some e"
  shows "RegisterMetricsForBR env pdAddrs keyspaceName w =
           (Some e, w @ [PdNewClient pdAddrs \<lparr>CAPath = [], CertPath = [], KeyPath = []\<rparr>
                           (10 * Second)])"
  using assms by (simp add: RegisterMetricsForBR_def Let_def)

lemma RegisterMetricsForBR_resolve:
  assumes "\<not> IsKeyspaceNameEmpty env keyspaceName"
    and "NewClient env pdAddrs \<lparr>CAPath = [], CertPath = [], KeyPath = []\<rparr> (10 * Second) = None"
    and "getKeyspaceMeta env keyspaceName
           (w @ [PdNewClient pdAddrs \<lparr>CAPath = [], CertPath = [], KeyPath = []\<rparr>
                   (10 * Second)]) = ((km, err), w2)"
  shows "RegisterMetricsForBR env pdAddrs keyspaceName w =
           (case err of
              Some e \<Rightarrow> (Some e, w2 @ [PdClose])
            | None \<Rightarrow> (None, snd (registerMetrics env km w2) @ [PdClose]))"
  using assms
  by (simp add: RegisterMetricsForBR_def Let_def registerMetrics_eq split: option.splits)

subsection \<open>The label value\<close>

lemma decimalValue_snoc:
  "decimalValue (s @ [c]) = 10 * decimalValue s + ((of_char c :: nat) - 48)"
  by (simp add: decimalValue_def)

lemma FormatUint_decimal:
  "list_all isDigit (FormatUint n) \<and> decimalValue (FormatUint n) = n"
proof (induction n rule: FormatUint.induct)
  case (1 n)
  show ?case
  proof (cases "n < 10")
    case True
    then have "FormatUint n = [char_of (48 + n)]" by (simp add: FormatUint.simps)
    with True show ?thesis by (simp add: isDigit_def decimalValue_def)
  next
    case False
    then have f: "FormatUint n = FormatUint (n div 10) @ [char_of (48 + n mod 10)]"
      by (subst FormatUint.simps) simp
    have m: "(48 + n mod 10) mod 256 = 48 + n mod 10"
      by (rule mod_less) (simp add: less_trans[OF mod_less_divisor[of 10 n]] add.commute
                            trans_less_add2)
    from "1.IH"[OF False] f m show ?thesis
      by (simp add: isDigit_def decimalValue_snoc)
  qed
qed

subsection \<open>The global configuration and the entry point of BR\<close>

lemma loadKeyspaceOnce_config:
  "loadKeyspaceOnce (env\<lparr>GetGlobalConfig := c\<rparr>) name = loadKeyspaceOnce env name"
  by (rule ext) (simp add: loadKeyspaceOnce_def)

lemma getKeyspaceMeta_config:
  "getKeyspaceMeta (env\<lparr>GetGlobalConfig := c\<rparr>) name w = getKeyspaceMeta env name w"
  by (simp add: getKeyspaceMeta_def loadKeyspaceOnce_config)

text \<open>
  The events of \<open>RegisterMetricsForBR\<close> up to the initializer of the unistore metrics, which
  is the one place where the global configuration is read.
\<close>

lemma RegisterMetricsForBR_shape:
  "\<exists>r evs cl. (\<forall>c. RegisterMetricsForBR (env\<lparr>GetGlobalConfig := c\<rparr>) pdAddrs keyspaceName w =
                  (r, w @ evs
                      @ (if r = None \<and> Store c = ''unistore''
                         then [Init unimetrics_RegisterMetrics] else [])
                      @ cl))
            \<and> Init unimetrics_RegisterMetrics \<notin> set cl"
proof (cases "IsKeyspaceNameEmpty env keyspaceName")
  case True
  show ?thesis
    by (intro exI[of _ None] exI[of _ initCalls] exI[of _ "[]"])
       (simp add: True RegisterMetricsForBR_def registerMetrics_eq)
next
  case ne: False
  let ?o = "\<lparr>CAPath = [], CertPath = [], KeyPath = []\<rparr>"
  let ?w1 = "w @ [PdNewClient pdAddrs ?o (10 * Second)]"
  show ?thesis
  proof (cases "NewClient env pdAddrs ?o (10 * Second)")
    case (Some e)
    show ?thesis
      by (intro exI[of _ "Some e"] exI[of _ "[PdNewClient pdAddrs ?o (10 * Second)]"]
            exI[of _ "[]"])
         (simp add: ne Some RegisterMetricsForBR_def)
  next
    case None
    obtain km ge w2 where g: "getKeyspaceMeta env keyspaceName ?w1 = ((km, ge), w2)"
      by (metis prod.exhaust)
    from getKeyspaceMeta_cases[of keyspaceName env ?w1] g obtain evs
      where w2: "w2 = ?w1 @ evs" by auto
    have run: "RegisterMetricsForBR (env\<lparr>GetGlobalConfig := c\<rparr>) pdAddrs keyspaceName w =
                 (case ge of
                    Some e \<Rightarrow> (Some e, w2 @ [PdClose])
                  | None \<Rightarrow> (None, snd (registerMetrics (env\<lparr>GetGlobalConfig := c\<rparr>) km w2)
                                     @ [PdClose]))" for c
      by (rule RegisterMetricsForBR_resolve) (simp_all add: ne None g getKeyspaceMeta_config)
    show ?thesis
    proof (cases ge)
      case (Some e)
      show ?thesis
        by (intro exI[of _ "Some e"] exI[of _ "[PdNewClient pdAddrs ?o (10 * Second)] @ evs"]
              exI[of _ "[PdClose]"])
           (simp add: run Some w2)
    next
      case None
      show ?thesis
        by (intro exI[of _ None]
              exI[of _ "[PdNewClient pdAddrs ?o (10 * Second)] @ evs
                        @ (case km of Some m \<Rightarrow> [SetKeyspaceLabels (Sprint (GetId m))]
                           | None \<Rightarrow> [])
                        @ initCalls"]
              exI[of _ "[PdClose]"])
           (simp add: run None w2 registerMetrics_eq)
    qed
  qed
qed

subsection \<open>Unfolding on the concrete environment\<close>

lemmas example_defs =
  exampleEnv_def exampleConfig_def getKeyspaceMeta_def loadKeyspaceOnce_def
  retryable_def numeral_3_eq_3

lemmas entry_defs =
  exampleEnv_def exampleConfig_def getKeyspaceMeta_def loadKeyspaceOnce_def
  retryable_def numeral_3_eq_3
  RegisterMetrics_def RegisterMetricsForBR_def registerMetrics_def initCalls_def
  ToLower_def isASCII_def lowerASCII_def Sprint_def Second_def Let_def char_of_eq_iff

section \<open>Main results\<close>

text \<open>
  C1. The resolver asks for another lookup only after a failure that is one of the two
  retryable conditions. When the first lookup fails with any other error, that lookup is
  the only event and its error is returned. In any run, a lookup that is followed by
  anything failed with a retryable error, and when the last lookup failed the resolver
  returns no metadata and that error.
\<close>

theorem getKeyspaceMeta_retries_only_retryable:
  "(0 < DefaultMaxRetries env \<and> LoadKeyspace env w keyspaceName = (m, Some e) \<and>
    \<not> IsNotBootstrappedError env (Some e) \<and> \<not> IsKeyspaceNotExistError env (Some e)
    \<longrightarrow> getKeyspaceMeta env keyspaceName w =
          ((None, Some e), w @ [PdLoadKeyspace keyspaceName]))
   \<and> (getKeyspaceMeta env keyspaceName w =
         (r, w @ pre @ PdLoadKeyspace keyspaceName # rest) \<and> rest \<noteq> []
       \<longrightarrow> retryable env (snd (LoadKeyspace env (w @ pre) keyspaceName)))
   \<and> (getKeyspaceMeta env keyspaceName w = (r, w @ pre @ [PdLoadKeyspace keyspaceName]) \<and>
      LoadKeyspace env (w @ pre) keyspaceName = (m, Some e)
       \<longrightarrow> r = (None, Some e))"
proof (intro conjI impI)
  assume "0 < DefaultMaxRetries env \<and> LoadKeyspace env w keyspaceName = (m, Some e) \<and>
    \<not> IsNotBootstrappedError env (Some e) \<and> \<not> IsKeyspaceNotExistError env (Some e)"
  then show "getKeyspaceMeta env keyspaceName w =
          ((None, Some e), w @ [PdLoadKeyspace keyspaceName])"
    by (simp add: getKeyspaceMeta_first_fatal)
next
  assume "getKeyspaceMeta env keyspaceName w =
         (r, w @ pre @ PdLoadKeyspace keyspaceName # rest) \<and> rest \<noteq> []"
  then show "retryable env (snd (LoadKeyspace env (w @ pre) keyspaceName))"
    using getKeyspaceMeta_only_retryable by blast
next
  assume "getKeyspaceMeta env keyspaceName w = (r, w @ pre @ [PdLoadKeyspace keyspaceName]) \<and>
      LoadKeyspace env (w @ pre) keyspaceName = (m, Some e)"
  then show "r = (None, Some e)"
    using getKeyspaceMeta_returns_last_error by blast
qed

theorem getKeyspaceMeta_retries_only_retryable_witness:
  "0 < DefaultMaxRetries exampleEnv
   \<and> getKeyspaceMeta (exampleEnv\<lparr>LoadKeyspace := \<lambda>h n. (None, Some ''connection refused'')\<rparr>)
       ''tenant_7'' [] =
       ((None, Some ''connection refused''), [PdLoadKeyspace ''tenant_7''])
   \<and> getKeyspaceMeta
       (exampleEnv\<lparr>LoadKeyspace := \<lambda>h n. if h = [] then (None, Some ''NOT_BOOTSTRAPPED'')
                                          else (Some \<lparr>GetId = 5, Name = n\<rparr>, None)\<rparr>)
       ''tenant_7'' [] =
       ((Some \<lparr>GetId = 5, Name = ''tenant_7''\<rparr>, None),
        [PdLoadKeyspace ''tenant_7'', Sleep 500, PdLoadKeyspace ''tenant_7''])
   \<and> retryable exampleEnv (Some ''NOT_BOOTSTRAPPED'')"
  using getKeyspaceMeta_retries_only_retryable
          [where env = "exampleEnv\<lparr>LoadKeyspace := \<lambda>h n. (None, Some ''connection refused'')\<rparr>"
             and w = "[]" and keyspaceName = "''tenant_7''" and m = None
             and e = "''connection refused''" and pre = "[]"
             and r = "(None, Some ''connection refused'')"]
        getKeyspaceMeta_retries_only_retryable
          [where env = "exampleEnv\<lparr>LoadKeyspace :=
                           \<lambda>h n. if h = [] then (None, Some ''NOT_BOOTSTRAPPED'')
                                 else (Some \<lparr>GetId = 5, Name = n\<rparr>, None)\<rparr>"
             and w = "[]" and keyspaceName = "''tenant_7''"
             and r = "(Some \<lparr>GetId = 5, Name = ''tenant_7''\<rparr>, None)" and pre = "[]"
             and rest = "[Sleep 500, PdLoadKeyspace ''tenant_7'']"
             and m = None and e = "''NOT_BOOTSTRAPPED''"]
  by (simp add: example_defs)

text \<open>
  C2. When every lookup fails with a retryable error, the resolver makes exactly
  \<open>DefaultMaxRetries\<close> lookups; the last event is a lookup, and the resolver returns no
  metadata and the error of that last lookup.
\<close>

theorem getKeyspaceMeta_exhausts_attempts:
  assumes "\<forall>h. retryable env (snd (LoadKeyspace env h keyspaceName))"
  shows "\<exists>evs. snd (getKeyspaceMeta env keyspaceName w) = w @ evs \<and>
           length (filter isLoadKeyspace evs) = DefaultMaxRetries env \<and>
           (0 < DefaultMaxRetries env \<longrightarrow>
              last evs = PdLoadKeyspace keyspaceName \<and>
              (\<exists>e. snd (LoadKeyspace env (butlast (w @ evs)) keyspaceName) = Some e \<and>
                   fst (getKeyspaceMeta env keyspaceName w) = (None, Some e)))"
proof -
  from retry_always[OF assms, of "DefaultMaxRetries env" "RetryInterval env" None w]
  obtain evs m where run:
      "RunWithRetry (DefaultMaxRetries env) (RetryInterval env)
         (loadKeyspaceOnce env keyspaceName) (None, w) =
       (if DefaultMaxRetries env = 0 then None
        else snd (LoadKeyspace env (butlast (w @ evs)) keyspaceName), (m, w @ evs))"
    and len: "length (filter isLoadKeyspace evs) = DefaultMaxRetries env"
    and la: "DefaultMaxRetries env \<noteq> 0 \<longrightarrow> evs \<noteq> [] \<and> last evs = PdLoadKeyspace keyspaceName"
    by blast
  from assms obtain e
    where e: "snd (LoadKeyspace env (butlast (w @ evs)) keyspaceName) = Some e"
    by (auto simp: retryable_def)
  have "snd (getKeyspaceMeta env keyspaceName w) = w @ evs"
    using run by (simp add: getKeyspaceMeta_def)
  moreover have "0 < DefaultMaxRetries env \<longrightarrow>
      fst (getKeyspaceMeta env keyspaceName w) = (None, Some e)"
    using run e by (simp add: getKeyspaceMeta_def)
  ultimately show ?thesis using len la e by auto
qed

theorem getKeyspaceMeta_exhausts_attempts_witness:
  "(\<forall>h. retryable (exampleEnv\<lparr>LoadKeyspace := \<lambda>h n. (None, Some ''ENTRY_NOT_FOUND'')\<rparr>)
          (snd (LoadKeyspace (exampleEnv\<lparr>LoadKeyspace := \<lambda>h n. (None, Some ''ENTRY_NOT_FOUND'')\<rparr>)
                  h ''tenant_7'')))
   \<and> getKeyspaceMeta (exampleEnv\<lparr>LoadKeyspace := \<lambda>h n. (None, Some ''ENTRY_NOT_FOUND'')\<rparr>)
       ''tenant_7'' [] =
       ((None, Some ''ENTRY_NOT_FOUND''),
        [PdLoadKeyspace ''tenant_7'', Sleep 500, PdLoadKeyspace ''tenant_7'', Sleep 500,
         PdLoadKeyspace ''tenant_7''])
   \<and> DefaultMaxRetries exampleEnv = 3"
  using getKeyspaceMeta_exhausts_attempts
          [of "exampleEnv\<lparr>LoadKeyspace := \<lambda>h n. (None, Some ''ENTRY_NOT_FOUND'')\<rparr>"
              "''tenant_7''" "[]"]
  by (simp add: example_defs)

text \<open>
  C3. When the keyspace name is empty (by \<open>IsKeyspaceNameEmpty\<close>) or the lower-cased store
  is not \<open>tikv\<close>, \<open>RegisterMetrics\<close> succeeds and its events are the initializer calls
  alone: no client is constructed, no lookup is made, no keyspace label is set. The
  behaviour of the client plays no part.
\<close>

theorem RegisterMetrics_skips_resolution:
  assumes "IsKeyspaceNameEmpty env (KeyspaceName (GetGlobalConfig env)) \<or>
           ToLower env (Store (GetGlobalConfig env)) \<noteq> ''tikv''"
  shows "\<exists>evs. RegisterMetrics env w = (None, w @ evs)
           \<and> evs = initCalls @ (if Store (GetGlobalConfig env) = ''unistore''
                                then [Init unimetrics_RegisterMetrics] else [])
           \<and> filter isNewClient evs = [] \<and> filter isLoadKeyspace evs = []
           \<and> filter isSetKeyspaceLabels evs = []
           \<and> RegisterMetrics (env\<lparr>NewClient := nc, LoadKeyspace := lk\<rparr>) w =
               RegisterMetrics env w"
proof -
  let ?env' = "env\<lparr>NewClient := nc, LoadKeyspace := lk\<rparr>"
  have "IsKeyspaceNameEmpty ?env' (KeyspaceName (GetGlobalConfig ?env')) \<or>
        ToLower ?env' (Store (GetGlobalConfig ?env')) \<noteq> ''tikv''"
    using assms by (auto simp: ToLower_def split: if_splits)
  then have "RegisterMetrics ?env' w = registerMetrics ?env' None w"
    by (rule RegisterMetrics_skip)
  moreover have "RegisterMetrics env w = registerMetrics env None w"
    using assms by (rule RegisterMetrics_skip)
  ultimately show ?thesis
    by (simp add: registerMetrics_eq initCalls_filters)
qed

theorem RegisterMetrics_skips_resolution_witness:
  "ToLower (exampleEnv\<lparr>GetGlobalConfig := exampleConfig\<lparr>Store := ''unistore''\<rparr>\<rparr>) ''unistore''
     \<noteq> ''tikv''
   \<and> RegisterMetrics (exampleEnv\<lparr>GetGlobalConfig := exampleConfig\<lparr>Store := ''unistore''\<rparr>\<rparr>) [] =
       (None, initCalls @ [Init unimetrics_RegisterMetrics])
   \<and> IsKeyspaceNameEmpty exampleEnv []
   \<and> RegisterMetrics (exampleEnv\<lparr>GetGlobalConfig := exampleConfig\<lparr>KeyspaceName := []\<rparr>\<rparr>) [] =
       (None, initCalls)"
proof -
  have a: "ToLower (exampleEnv\<lparr>GetGlobalConfig := exampleConfig\<lparr>Store := ''unistore''\<rparr>\<rparr>)
             ''unistore'' \<noteq> ''tikv''"
    by (simp add: ToLower_def isASCII_def lowerASCII_def)
  have b: "IsKeyspaceNameEmpty exampleEnv []"
    by (simp add: exampleEnv_def)
  from RegisterMetrics_skips_resolution
         [of "exampleEnv\<lparr>GetGlobalConfig := exampleConfig\<lparr>Store := ''unistore''\<rparr>\<rparr>" "[]"] a
  have c: "RegisterMetrics (exampleEnv\<lparr>GetGlobalConfig := exampleConfig\<lparr>Store := ''unistore''\<rparr>\<rparr>)
             [] = (None, initCalls @ [Init unimetrics_RegisterMetrics])"
    by (simp add: exampleEnv_def exampleConfig_def)
  from RegisterMetrics_skips_resolution
         [of "exampleEnv\<lparr>GetGlobalConfig := exampleConfig\<lparr>KeyspaceName := []\<rparr>\<rparr>" "[]"] b
  have d: "RegisterMetrics (exampleEnv\<lparr>GetGlobalConfig := exampleConfig\<lparr>KeyspaceName := []\<rparr>\<rparr>)
             [] = (None, initCalls)"
    by (simp add: exampleEnv_def exampleConfig_def)
  from a b c d show ?thesis by blast
qed

text \<open>
  C4. Each fatal condition of the entry points makes the call return that error, and the
  events of such a call hold no keyspace label and no initializer call. For
  \<open>RegisterMetrics\<close> the conditions are an error of \<open>ParsePath\<close>, an error of
  \<open>pd.NewClient\<close> and an error of the resolver; for \<open>RegisterMetricsForBR\<close> the last two.
\<close>

theorem fatal_conditions_abort_before_registration:
  assumes "cfg = GetGlobalConfig env"
    and "opt = \<lparr>CAPath = ClusterSSLCA (Security cfg), CertPath = ClusterSSLCert (Security cfg),
                KeyPath = ClusterSSLKey (Security cfg)\<rparr>"
    and "timeoutSec = PDServerTimeout (PDClient cfg) * Second"
    and "optBR = \<lparr>CAPath = [], CertPath = [], KeyPath = []\<rparr>"
  shows
    "(\<not> (IsKeyspaceNameEmpty env (KeyspaceName cfg) \<or> ToLower env (Store cfg) \<noteq> ''tikv'') \<longrightarrow>
        (ParsePath env (''tikv://'' @ Path cfg) = (pdAddrs, Some e)
           \<longrightarrow> RegisterMetrics env w = (Some e, w))
      \<and> (ParsePath env (''tikv://'' @ Path cfg) = (pdAddrs, None) \<and>
         NewClient env pdAddrs opt timeoutSec = Some e
           \<longrightarrow> RegisterMetrics env w = (Some e, w @ [PdNewClient pdAddrs opt timeoutSec]))
      \<and> (ParsePath env (''tikv://'' @ Path cfg) = (pdAddrs, None) \<and>
         NewClient env pdAddrs opt timeoutSec = None \<and>
         fst (getKeyspaceMeta env (KeyspaceName cfg)
                (w @ [PdNewClient pdAddrs opt timeoutSec])) = (km, Some e)
           \<longrightarrow> (\<exists>evs. RegisterMetrics env w = (Some e, w @ evs) \<and>
                      filter isSetKeyspaceLabels evs = [] \<and> filter isInit evs = [])))
     \<and> (\<not> IsKeyspaceNameEmpty env keyspaceName \<longrightarrow>
        (NewClient env addrs optBR (10 * Second) = Some e
           \<longrightarrow> RegisterMetricsForBR env addrs keyspaceName w =
                 (Some e, w @ [PdNewClient addrs optBR (10 * Second)]))
      \<and> (NewClient env addrs optBR (10 * Second) = None \<and>
         fst (getKeyspaceMeta env keyspaceName
                (w @ [PdNewClient addrs optBR (10 * Second)])) = (km, Some e)
           \<longrightarrow> (\<exists>evs. RegisterMetricsForBR env addrs keyspaceName w = (Some e, w @ evs) \<and>
                      filter isSetKeyspaceLabels evs = [] \<and> filter isInit evs = [])))"
proof -
  have A3: "\<exists>evs. RegisterMetrics env w = (Some e, w @ evs) \<and>
              filter isSetKeyspaceLabels evs = [] \<and> filter isInit evs = []"
    if skip: "\<not> (IsKeyspaceNameEmpty env (KeyspaceName cfg) \<or> ToLower env (Store cfg) \<noteq> ''tikv'')"
      and parse: "ParsePath env (''tikv://'' @ Path cfg) = (pdAddrs, None)"
      and cli: "NewClient env pdAddrs opt timeoutSec = None"
      and res: "fst (getKeyspaceMeta env (KeyspaceName cfg)
                  (w @ [PdNewClient pdAddrs opt timeoutSec])) = (km, Some e)"
  proof -
    let ?w1 = "w @ [PdNewClient pdAddrs opt timeoutSec]"
    from getKeyspaceMeta_cases[of "KeyspaceName cfg" env ?w1] res
    obtain evs
      where evs: "set evs \<subseteq> {PdLoadKeyspace (KeyspaceName cfg), Sleep (RetryInterval env)}"
        and g: "getKeyspaceMeta env (KeyspaceName cfg) ?w1 = ((km, Some e), ?w1 @ evs)"
      by auto
    from RegisterMetrics_resolve[OF skip[unfolded assms(1)] parse[unfolded assms(1)]
           assms(2)[unfolded assms(1)] assms(3)[unfolded assms(1)] cli g[unfolded assms(1)]]
    have "RegisterMetrics env w =
            (Some e, w @ ([PdNewClient pdAddrs opt timeoutSec] @ evs @ [PdClose]))"
      by simp
    moreover have "filter isSetKeyspaceLabels ([PdNewClient pdAddrs opt timeoutSec] @ evs @ [PdClose]) = []"
      "filter isInit ([PdNewClient pdAddrs opt timeoutSec] @ evs @ [PdClose]) = []"
      using retry_events_filters[OF evs] by simp_all
    ultimately show ?thesis by blast
  qed
  have B3: "\<exists>evs. RegisterMetricsForBR env addrs keyspaceName w = (Some e, w @ evs) \<and>
              filter isSetKeyspaceLabels evs = [] \<and> filter isInit evs = []"
    if ne: "\<not> IsKeyspaceNameEmpty env keyspaceName"
      and cli: "NewClient env addrs \<lparr>CAPath = [], CertPath = [], KeyPath = []\<rparr> (10 * Second) = None"
      and res: "fst (getKeyspaceMeta env keyspaceName
                  (w @ [PdNewClient addrs \<lparr>CAPath = [], CertPath = [], KeyPath = []\<rparr>
                          (10 * Second)])) = (km, Some e)"
  proof -
    let ?w1 = "w @ [PdNewClient addrs \<lparr>CAPath = [], CertPath = [], KeyPath = []\<rparr> (10 * Second)]"
    from getKeyspaceMeta_cases[of keyspaceName env ?w1] res
    obtain evs
      where evs: "set evs \<subseteq> {PdLoadKeyspace keyspaceName, Sleep (RetryInterval env)}"
        and g: "getKeyspaceMeta env keyspaceName ?w1 = ((km, Some e), ?w1 @ evs)"
      by auto
    from RegisterMetricsForBR_resolve[OF ne cli g]
    have "RegisterMetricsForBR env addrs keyspaceName w =
            (Some e, w @ ([PdNewClient addrs \<lparr>CAPath = [], CertPath = [], KeyPath = []\<rparr>
                             (10 * Second)] @ evs @ [PdClose]))"
      by simp
    moreover have "filter isSetKeyspaceLabels
                     ([PdNewClient addrs \<lparr>CAPath = [], CertPath = [], KeyPath = []\<rparr>
                         (10 * Second)] @ evs @ [PdClose]) = []"
      "filter isInit ([PdNewClient addrs \<lparr>CAPath = [], CertPath = [], KeyPath = []\<rparr>
                         (10 * Second)] @ evs @ [PdClose]) = []"
      using retry_events_filters[OF evs] by simp_all
    ultimately show ?thesis by blast
  qed
  have A1: "RegisterMetrics env w = (Some e, w)"
    if "\<not> (IsKeyspaceNameEmpty env (KeyspaceName cfg) \<or> ToLower env (Store cfg) \<noteq> ''tikv'')"
      and "ParsePath env (''tikv://'' @ Path cfg) = (pdAddrs, Some e)"
    using that RegisterMetrics_parse_error unfolding assms(1) by blast
  have A2: "RegisterMetrics env w = (Some e, w @ [PdNewClient pdAddrs opt timeoutSec])"
    if "\<not> (IsKeyspaceNameEmpty env (KeyspaceName cfg) \<or> ToLower env (Store cfg) \<noteq> ''tikv'')"
      and "ParsePath env (''tikv://'' @ Path cfg) = (pdAddrs, None)"
      and "NewClient env pdAddrs opt timeoutSec = Some e"
    using that(1,2)[unfolded assms(1)] assms(2)[unfolded assms(1)]
      assms(3)[unfolded assms(1)] that(3)
    by (rule RegisterMetrics_client_error)
  have B2: "RegisterMetricsForBR env addrs keyspaceName w =
              (Some e, w @ [PdNewClient addrs \<lparr>CAPath = [], CertPath = [], KeyPath = []\<rparr>
                              (10 * Second)])"
    if "\<not> IsKeyspaceNameEmpty env keyspaceName"
      and "NewClient env addrs \<lparr>CAPath = [], CertPath = [], KeyPath = []\<rparr> (10 * Second) = Some e"
    using that by (rule RegisterMetricsForBR_client_error)
  from A1 A2 A3 B2 B3 show ?thesis unfolding assms(4) by blast
qed

theorem fatal_conditions_abort_before_registration_witness:
  "RegisterMetrics (exampleEnv\<lparr>ParsePath := \<lambda>p. ([], Some ''invalid path'')\<rparr>) [] =
     (Some ''invalid path'', [])
   \<and> RegisterMetrics (exampleEnv\<lparr>NewClient := \<lambda>a s t. Some ''tls setup failed''\<rparr>) [] =
     (Some ''tls setup failed'',
      [PdNewClient [''127.0.0.1:2379''] \<lparr>CAPath = [], CertPath = [], KeyPath = []\<rparr> 3000000000])
   \<and> RegisterMetrics (exampleEnv\<lparr>LoadKeyspace := \<lambda>h n. (None, Some ''connection refused'')\<rparr>) [] =
     (Some ''connection refused'',
      [PdNewClient [''127.0.0.1:2379''] \<lparr>CAPath = [], CertPath = [], KeyPath = []\<rparr> 3000000000,
       PdLoadKeyspace ''tenant_7'', PdClose])
   \<and> RegisterMetricsForBR (exampleEnv\<lparr>NewClient := \<lambda>a s t. Some ''tls setup failed''\<rparr>)
       [''pd0:2379''] ''tenant_x'' [] =
     (Some ''tls setup failed'',
      [PdNewClient [''pd0:2379''] \<lparr>CAPath = [], CertPath = [], KeyPath = []\<rparr> 10000000000])
   \<and> RegisterMetricsForBR (exampleEnv\<lparr>LoadKeyspace := \<lambda>h n. (None, Some ''connection refused'')\<rparr>)
       [''pd0:2379''] ''tenant_x'' [] =
     (Some ''connection refused'',
      [PdNewClient [''pd0:2379''] \<lparr>CAPath = [], CertPath = [], KeyPath = []\<rparr> 10000000000,
       PdLoadKeyspace ''tenant_x'', PdClose])"
proof -
  let ?o = "\<lparr>CAPath = [], CertPath = [], KeyPath = []\<rparr>"
  let ?envP = "exampleEnv\<lparr>ParsePath := \<lambda>p. ([], Some ''invalid path'')\<rparr>"
  let ?envC = "exampleEnv\<lparr>NewClient := \<lambda>a s t. Some ''tls setup failed''\<rparr>"
  let ?envR = "exampleEnv\<lparr>LoadKeyspace := \<lambda>h n. (None, Some ''connection refused'')\<rparr>"
  have a: "RegisterMetrics ?envP [] = (Some ''invalid path'', [])"
    using fatal_conditions_abort_before_registration
            [where env = ?envP and cfg = exampleConfig and opt = ?o and timeoutSec = 3000000000
               and optBR = ?o and pdAddrs = "[]" and e = "''invalid path''" and w = "[]"]
    by (simp add: exampleEnv_def exampleConfig_def ToLower_def isASCII_def lowerASCII_def
          Second_def)
  have b: "RegisterMetrics ?envC [] =
             (Some ''tls setup failed'', [PdNewClient [''127.0.0.1:2379''] ?o 3000000000])"
    using fatal_conditions_abort_before_registration
            [where env = ?envC and cfg = exampleConfig and opt = ?o and timeoutSec = 3000000000
               and optBR = ?o and pdAddrs = "[''127.0.0.1:2379'']"
               and e = "''tls setup failed''" and w = "[]"]
    by (simp add: exampleEnv_def exampleConfig_def ToLower_def isASCII_def lowerASCII_def
          Second_def)
  have c: "RegisterMetrics ?envR [] =
             (Some ''connection refused'',
              [PdNewClient [''127.0.0.1:2379''] ?o 3000000000, PdLoadKeyspace ''tenant_7'',
               PdClose])"
    using fatal_conditions_abort_before_registration
            [where env = ?envR and cfg = exampleConfig and opt = ?o and timeoutSec = 3000000000
               and optBR = ?o and pdAddrs = "[''127.0.0.1:2379'']"
               and e = "''connection refused''" and w = "[]" and km = None]
    by (simp add: entry_defs)
  have d: "RegisterMetricsForBR ?envC [''pd0:2379''] ''tenant_x'' [] =
             (Some ''tls setup failed'', [PdNewClient [''pd0:2379''] ?o 10000000000])"
    using fatal_conditions_abort_before_registration
            [where env = ?envC and cfg = exampleConfig and opt = ?o and timeoutSec = 3000000000
               and optBR = ?o and addrs = "[''pd0:2379'']" and keyspaceName = "''tenant_x''"
               and e = "''tls setup failed''" and w = "[]"]
    by (simp add: exampleEnv_def exampleConfig_def Second_def)
  have e: "RegisterMetricsForBR ?envR [''pd0:2379''] ''tenant_x'' [] =
             (Some ''connection refused'',
              [PdNewClient [''pd0:2379''] ?o 10000000000, PdLoadKeyspace ''tenant_x'', PdClose])"
    using fatal_conditions_abort_before_registration
            [where env = ?envR and cfg = exampleConfig and opt = ?o and timeoutSec = 3000000000
               and optBR = ?o and addrs = "[''pd0:2379'']" and keyspaceName = "''tenant_x''"
               and e = "''connection refused''" and w = "[]" and km = None]
    by (simp add: entry_defs)
  from a b c d e show ?thesis by blast
qed

text \<open>
  C5. In both entry points, once \<open>pd.NewClient\<close> has succeeded, the events that follow the
  construction end with \<open>PdClose\<close> and hold no other \<open>PdClose\<close> (and no second
  construction), whatever the resolver and the registration do in between.
\<close>

theorem client_closed_exactly_once:
  assumes "cfg = GetGlobalConfig env"
    and "opt = \<lparr>CAPath = ClusterSSLCA (Security cfg), CertPath = ClusterSSLCert (Security cfg),
                KeyPath = ClusterSSLKey (Security cfg)\<rparr>"
    and "timeoutSec = PDServerTimeout (PDClient cfg) * Second"
    and "optBR = \<lparr>CAPath = [], CertPath = [], KeyPath = []\<rparr>"
  shows
    "(\<not> (IsKeyspaceNameEmpty env (KeyspaceName cfg) \<or> ToLower env (Store cfg) \<noteq> ''tikv'') \<and>
      ParsePath env (''tikv://'' @ Path cfg) = (pdAddrs, None) \<and>
      NewClient env pdAddrs opt timeoutSec = None
      \<longrightarrow> (\<exists>mid. snd (RegisterMetrics env w) =
                    w @ [PdNewClient pdAddrs opt timeoutSec] @ mid @ [PdClose]
                \<and> PdClose \<notin> set mid \<and> filter isNewClient mid = []))
     \<and> (\<not> IsKeyspaceNameEmpty env keyspaceName \<and>
        NewClient env addrs optBR (10 * Second) = None
        \<longrightarrow> (\<exists>mid. snd (RegisterMetricsForBR env addrs keyspaceName w) =
                      w @ [PdNewClient addrs optBR (10 * Second)] @ mid @ [PdClose]
                  \<and> PdClose \<notin> set mid \<and> filter isNewClient mid = []))"
proof -
  have tail: "\<exists>mid. snd (case err of
                           Some e \<Rightarrow> (Some e, (wa @ evs) @ [PdClose])
                         | None \<Rightarrow> (None :: error option, snd (registerMetrics env km (wa @ evs)) @ [PdClose]))
                     = wa @ mid @ [PdClose]
                   \<and> PdClose \<notin> set mid \<and> filter isNewClient mid = []"
    if "set evs \<subseteq> {PdLoadKeyspace name, Sleep b}" for err km wa evs name b
  proof (cases err)
    case None
    show ?thesis
      by (rule exI[of _ "evs @ (case km of Some m \<Rightarrow> [SetKeyspaceLabels (Sprint (GetId m))]
                                 | None \<Rightarrow> [])
                          @ initCalls
                          @ (if Store (GetGlobalConfig env) = ''unistore''
                             then [Init unimetrics_RegisterMetrics] else [])"])
         (use None retry_events_filters[OF that] in
           \<open>simp add: registerMetrics_eq initCalls_filters split: option.splits\<close>)
  next
    case (Some e)
    show ?thesis
      by (rule exI[of _ evs]) (use Some retry_events_filters[OF that] in simp)
  qed
  have A: "\<exists>mid. snd (RegisterMetrics env w) =
                    w @ [PdNewClient pdAddrs opt timeoutSec] @ mid @ [PdClose]
                \<and> PdClose \<notin> set mid \<and> filter isNewClient mid = []"
    if skip: "\<not> (IsKeyspaceNameEmpty env (KeyspaceName cfg) \<or> ToLower env (Store cfg) \<noteq> ''tikv'')"
      and parse: "ParsePath env (''tikv://'' @ Path cfg) = (pdAddrs, None)"
      and cli: "NewClient env pdAddrs opt timeoutSec = None"
  proof -
    let ?w1 = "w @ [PdNewClient pdAddrs opt timeoutSec]"
    from getKeyspaceMeta_cases[of "KeyspaceName cfg" env ?w1]
    obtain evs km err
      where evs: "set evs \<subseteq> {PdLoadKeyspace (KeyspaceName cfg), Sleep (RetryInterval env)}"
        and g: "getKeyspaceMeta env (KeyspaceName cfg) ?w1 = ((km, err), ?w1 @ evs)"
      by blast
    from RegisterMetrics_resolve[OF skip[unfolded assms(1)] parse[unfolded assms(1)]
           assms(2)[unfolded assms(1)] assms(3)[unfolded assms(1)] cli g[unfolded assms(1)]]
         tail[OF evs, where err=err and km=km and wa="?w1"]
    show ?thesis by simp
  qed
  have B: "\<exists>mid. snd (RegisterMetricsForBR env addrs keyspaceName w) =
                      w @ [PdNewClient addrs \<lparr>CAPath = [], CertPath = [], KeyPath = []\<rparr> (10 * Second)] @ mid @ [PdClose]
                  \<and> PdClose \<notin> set mid \<and> filter isNewClient mid = []"
    if ne: "\<not> IsKeyspaceNameEmpty env keyspaceName"
      and cli: "NewClient env addrs \<lparr>CAPath = [], CertPath = [], KeyPath = []\<rparr> (10 * Second) = None"
  proof -
    let ?w1 = "w @ [PdNewClient addrs \<lparr>CAPath = [], CertPath = [], KeyPath = []\<rparr> (10 * Second)]"
    from getKeyspaceMeta_cases[of keyspaceName env ?w1]
    obtain evs km err
      where evs: "set evs \<subseteq> {PdLoadKeyspace keyspaceName, Sleep (RetryInterval env)}"
        and g: "getKeyspaceMeta env keyspaceName ?w1 = ((km, err), ?w1 @ evs)"
      by blast
    from RegisterMetricsForBR_resolve[OF ne cli g]
         tail[OF evs, where err=err and km=km and wa="?w1"]
    show ?thesis by simp
  qed
  from A B show ?thesis unfolding assms(4) by blast
qed

theorem client_closed_exactly_once_witness:
  "snd (RegisterMetrics exampleEnv []) =
     [PdNewClient [''127.0.0.1:2379''] \<lparr>CAPath = [], CertPath = [], KeyPath = []\<rparr> 3000000000]
     @ [PdLoadKeyspace ''tenant_7'', SetKeyspaceLabels ''42''] @ initCalls @ [PdClose]
   \<and> snd (RegisterMetricsForBR
           (exampleEnv\<lparr>LoadKeyspace := \<lambda>h n. (None, Some ''connection refused'')\<rparr>)
           [''pd0:2379''] ''tenant_x'' []) =
     [PdNewClient [''pd0:2379''] \<lparr>CAPath = [], CertPath = [], KeyPath = []\<rparr> 10000000000]
     @ [PdLoadKeyspace ''tenant_x''] @ [PdClose]"
proof -
  from client_closed_exactly_once
         [of exampleConfig exampleEnv "\<lparr>CAPath = [], CertPath = [], KeyPath = []\<rparr>" 3000000000
             "\<lparr>CAPath = [], CertPath = [], KeyPath = []\<rparr>" "[''127.0.0.1:2379'']" "[]"]
  have "\<exists>mid. snd (RegisterMetrics exampleEnv []) =
          [PdNewClient [''127.0.0.1:2379''] \<lparr>CAPath = [], CertPath = [], KeyPath = []\<rparr> 3000000000]
          @ mid @ [PdClose] \<and> PdClose \<notin> set mid \<and> filter isNewClient mid = []"
    by (simp add: exampleEnv_def exampleConfig_def ToLower_def isASCII_def lowerASCII_def
          Second_def)
  moreover
  from client_closed_exactly_once
         [of exampleConfig "exampleEnv\<lparr>LoadKeyspace := \<lambda>h n. (None, Some ''connection refused'')\<rparr>"
             "\<lparr>CAPath = [], CertPath = [], KeyPath = []\<rparr>" 3000000000
             "\<lparr>CAPath = [], CertPath = [], KeyPath = []\<rparr>" _ "[]" "''tenant_x''" "[''pd0:2379'']"]
  have "\<exists>mid. snd (RegisterMetricsForBR
                     (exampleEnv\<lparr>LoadKeyspace := \<lambda>h n. (None, Some ''connection refused'')\<rparr>)
                     [''pd0:2379''] ''tenant_x'' []) =
          [PdNewClient [''pd0:2379''] \<lparr>CAPath = [], CertPath = [], KeyPath = []\<rparr> 10000000000]
          @ mid @ [PdClose] \<and> PdClose \<notin> set mid \<and> filter isNewClient mid = []"
    by (simp add: exampleEnv_def exampleConfig_def Second_def)
  moreover
  have "snd (RegisterMetrics exampleEnv []) =
     [PdNewClient [''127.0.0.1:2379''] \<lparr>CAPath = [], CertPath = [], KeyPath = []\<rparr> 3000000000]
     @ [PdLoadKeyspace ''tenant_7'', SetKeyspaceLabels ''42''] @ initCalls @ [PdClose]"
    by (simp add: entry_defs FormatUint.simps)
  moreover
  have "snd (RegisterMetricsForBR
           (exampleEnv\<lparr>LoadKeyspace := \<lambda>h n. (None, Some ''connection refused'')\<rparr>)
           [''pd0:2379''] ''tenant_x'' []) =
     [PdNewClient [''pd0:2379''] \<lparr>CAPath = [], CertPath = [], KeyPath = []\<rparr> 10000000000]
     @ [PdLoadKeyspace ''tenant_x''] @ [PdClose]"
    by (simp add: entry_defs)
  ultimately show ?thesis by blast
qed

text \<open>
  C6. Given metadata, \<open>registerMetrics\<close> first sets the keyspace label, and every event
  after it is an initializer call. The label value is \<open>fmt.Sprint\<close> of the identifier:
  decimal digits that denote the identifier, \<open>42\<close> for identifier 42.
\<close>

theorem registerMetrics_labels_before_initializers:
  "\<exists>inits. registerMetrics env (Some meta) w =
             (None, w @ SetKeyspaceLabels (Sprint (GetId meta)) # inits)
         \<and> inits = initCalls @ (if Store (GetGlobalConfig env) = ''unistore''
                                then [Init unimetrics_RegisterMetrics] else [])
         \<and> list_all isInit inits
         \<and> list_all isDigit (Sprint (GetId meta))
         \<and> decimalValue (Sprint (GetId meta)) = unat (GetId meta)
         \<and> Sprint 42 = ''42''"
proof -
  have "Sprint 42 = ''42''"
    by (simp add: Sprint_def FormatUint.simps char_of_eq_iff)
  then show ?thesis
    using FormatUint_decimal[of "unat (GetId meta)"] initCalls_all_init
    by (simp add: registerMetrics_eq Sprint_def)
qed

theorem registerMetrics_labels_before_initializers_witness:
  "registerMetrics exampleEnv (Some \<lparr>GetId = 42, Name = ''tenant_7''\<rparr>) [PdLoadKeyspace ''tenant_7'']
     = (None, [PdLoadKeyspace ''tenant_7'', SetKeyspaceLabels ''42''] @ initCalls)"
  using registerMetrics_labels_before_initializers
          [of exampleEnv "\<lparr>GetId = 42, Name = ''tenant_7''\<rparr>" "[PdLoadKeyspace ''tenant_7'']"]
  by (simp add: exampleEnv_def exampleConfig_def)

text \<open>
  C7. The store is lower-cased before it is compared with \<open>tikv\<close>, and compared as it is
  with \<open>unistore\<close>: under the store \<open>UniStore\<close>, whose lower-case form is \<open>unistore\<close>,
  \<open>registerMetrics\<close> does not call the initializer of the unistore metrics, which it calls
  under \<open>unistore\<close>.
\<close>

theorem registerMetrics_unistore_compared_exactly:
  "ToLower exampleEnv ''UniStore'' = ''unistore''
   \<and> registerMetrics (exampleEnv\<lparr>GetGlobalConfig := exampleConfig\<lparr>Store := ''unistore''\<rparr>\<rparr>)
       None [] = (None, initCalls @ [Init unimetrics_RegisterMetrics])
   \<and> registerMetrics (exampleEnv\<lparr>GetGlobalConfig := exampleConfig\<lparr>Store := ''UniStore''\<rparr>\<rparr>)
       None [] = (None, initCalls)"
  by (simp add: registerMetrics_eq exampleEnv_def exampleConfig_def ToLower_def isASCII_def
        lowerASCII_def char_of_eq_iff)

text \<open>
  C8, as stated, fails: with the same arguments and the same client, the global store
  \<open>unistore\<close> adds an initializer call to the run of \<open>RegisterMetricsForBR\<close>.
\<close>

theorem RegisterMetricsForBR_reads_global_store:
  "RegisterMetricsForBR (exampleEnv\<lparr>GetGlobalConfig := exampleConfig\<lparr>Store := ''unistore''\<rparr>\<rparr>)
     [''pd0:2379''] ''tenant_7'' []
   \<noteq> RegisterMetricsForBR exampleEnv [''pd0:2379''] ''tenant_7'' []"
  by (simp add: entry_defs FormatUint.simps)

text \<open>
  C8, amended. The error returned by \<open>RegisterMetricsForBR\<close> does not depend on the global
  configuration, and neither do its events other than the call of the unistore metrics
  initializer; two global configurations that agree on whether the store is \<open>unistore\<close>
  give the same run.
\<close>

theorem RegisterMetricsForBR_config_independent:
  "fst (RegisterMetricsForBR (env\<lparr>GetGlobalConfig := c\<rparr>) pdAddrs keyspaceName w) =
     fst (RegisterMetricsForBR env pdAddrs keyspaceName w)
   \<and> filter (\<lambda>ev. ev \<noteq> Init unimetrics_RegisterMetrics)
       (snd (RegisterMetricsForBR (env\<lparr>GetGlobalConfig := c\<rparr>) pdAddrs keyspaceName w)) =
     filter (\<lambda>ev. ev \<noteq> Init unimetrics_RegisterMetrics)
       (snd (RegisterMetricsForBR env pdAddrs keyspaceName w))
   \<and> ((Store c = ''unistore'') = (Store (GetGlobalConfig env) = ''unistore'') \<longrightarrow>
        RegisterMetricsForBR (env\<lparr>GetGlobalConfig := c\<rparr>) pdAddrs keyspaceName w =
          RegisterMetricsForBR env pdAddrs keyspaceName w)"
proof -
  from RegisterMetricsForBR_shape[of env pdAddrs keyspaceName w] obtain r evs cl
    where sh: "\<And>c. RegisterMetricsForBR (env\<lparr>GetGlobalConfig := c\<rparr>) pdAddrs keyspaceName w =
                  (r, w @ evs
                      @ (if r = None \<and> Store c = ''unistore''
                         then [Init unimetrics_RegisterMetrics] else [])
                      @ cl)"
    by blast
  have self: "env\<lparr>GetGlobalConfig := GetGlobalConfig env\<rparr> = env" by simp
  from sh[of "GetGlobalConfig env"]
  have base: "RegisterMetricsForBR env pdAddrs keyspaceName w =
                (r, w @ evs
                    @ (if r = None \<and> Store (GetGlobalConfig env) = ''unistore''
                       then [Init unimetrics_RegisterMetrics] else [])
                    @ cl)"
    by (simp only: self)
  show ?thesis
    by (simp add: sh[of c] base)
qed

theorem RegisterMetricsForBR_config_independent_witness:
  "(Store (exampleConfig\<lparr>Store := ''mocktikv'', KeyspaceName := []\<rparr>) = ''unistore'') =
     (Store (GetGlobalConfig exampleEnv) = ''unistore'')
   \<and> RegisterMetricsForBR
       (exampleEnv\<lparr>GetGlobalConfig := exampleConfig\<lparr>Store := ''mocktikv'', KeyspaceName := []\<rparr>\<rparr>)
       [''pd0:2379''] ''tenant_7'' [] =
     RegisterMetricsForBR exampleEnv [''pd0:2379''] ''tenant_7'' []"
  using RegisterMetricsForBR_config_independent
          [where env = exampleEnv
             and c = "exampleConfig\<lparr>Store := ''mocktikv'', KeyspaceName := []\<rparr>"
             and pdAddrs = "[''pd0:2379'']" and keyspaceName = "''tenant_7''" and w = "[]"]
  by (simp add: exampleEnv_def exampleConfig_def)

text \<open>
  C9. \<open>registerMetrics\<close> returns \<open>nil\<close> on every input, so an error returned by an entry
  point is an error of \<open>ParsePath\<close>, of \<open>pd.NewClient\<close> or of the resolver.
\<close>

theorem registerMetrics_never_fails:
  assumes "cfg = GetGlobalConfig env"
    and "opt = \<lparr>CAPath = ClusterSSLCA (Security cfg), CertPath = ClusterSSLCert (Security cfg),
                KeyPath = ClusterSSLKey (Security cfg)\<rparr>"
    and "timeoutSec = PDServerTimeout (PDClient cfg) * Second"
    and "optBR = \<lparr>CAPath = [], CertPath = [], KeyPath = []\<rparr>"
  shows
    "fst (registerMetrics env keyspaceMeta w) = None
     \<and> (fst (RegisterMetrics env w) = Some e \<longrightarrow>
          \<not> (IsKeyspaceNameEmpty env (KeyspaceName cfg) \<or> ToLower env (Store cfg) \<noteq> ''tikv'') \<and>
          (\<exists>pdAddrs.
             ParsePath env (''tikv://'' @ Path cfg) = (pdAddrs, Some e) \<or>
             ParsePath env (''tikv://'' @ Path cfg) = (pdAddrs, None) \<and>
               (NewClient env pdAddrs opt timeoutSec = Some e \<or>
                NewClient env pdAddrs opt timeoutSec = None \<and>
                  fst (getKeyspaceMeta env (KeyspaceName cfg)
                         (w @ [PdNewClient pdAddrs opt timeoutSec])) = (None, Some e))))
     \<and> (fst (RegisterMetricsForBR env addrs keyspaceName w) = Some e \<longrightarrow>
          \<not> IsKeyspaceNameEmpty env keyspaceName \<and>
          (NewClient env addrs optBR (10 * Second) = Some e \<or>
           NewClient env addrs optBR (10 * Second) = None \<and>
             fst (getKeyspaceMeta env keyspaceName
                    (w @ [PdNewClient addrs optBR (10 * Second)])) = (None, Some e)))"
proof -
  have R: "fst (registerMetrics env km wa) = None" for km wa
    by (simp add: registerMetrics_eq)
  have G: "(\<exists>e. fst (getKeyspaceMeta env name wa) = (None, Some e)) \<or>
           (\<exists>m. fst (getKeyspaceMeta env name wa) = (m, None))" for name wa
    using getKeyspaceMeta_cases[of name env wa] by auto
  have A: "\<not> (IsKeyspaceNameEmpty env (KeyspaceName cfg) \<or> ToLower env (Store cfg) \<noteq> ''tikv'') \<and>
          (\<exists>pdAddrs.
             ParsePath env (''tikv://'' @ Path cfg) = (pdAddrs, Some e) \<or>
             ParsePath env (''tikv://'' @ Path cfg) = (pdAddrs, None) \<and>
               (NewClient env pdAddrs opt timeoutSec = Some e \<or>
                NewClient env pdAddrs opt timeoutSec = None \<and>
                  fst (getKeyspaceMeta env (KeyspaceName cfg)
                         (w @ [PdNewClient pdAddrs opt timeoutSec])) = (None, Some e)))"
    if err: "fst (RegisterMetrics env w) = Some e"
  proof -
    have skip: "\<not> (IsKeyspaceNameEmpty env (KeyspaceName cfg) \<or>
                   ToLower env (Store cfg) \<noteq> ''tikv'')"
    proof
      assume "IsKeyspaceNameEmpty env (KeyspaceName cfg) \<or> ToLower env (Store cfg) \<noteq> ''tikv''"
      then have "RegisterMetrics env w = registerMetrics env None w"
        unfolding assms(1) by (rule RegisterMetrics_skip)
      with err R[of None w] show False by simp
    qed
    obtain pdAddrs pe where parse: "ParsePath env (''tikv://'' @ Path cfg) = (pdAddrs, pe)"
      by (cases "ParsePath env (''tikv://'' @ Path cfg)")
    let ?w1 = "w @ [PdNewClient pdAddrs opt timeoutSec]"
    show ?thesis
    proof (cases pe)
      case (Some e')
      with RegisterMetrics_parse_error[of env pdAddrs e' w] skip parse err
      show ?thesis unfolding assms(1) by auto
    next
      case None
      note pnone = None
      show ?thesis
      proof (cases "NewClient env pdAddrs opt timeoutSec")
        case (Some e')
        from RegisterMetrics_client_error[OF skip[unfolded assms(1)]
               parse[unfolded assms(1) pnone] assms(2)[unfolded assms(1)]
               assms(3)[unfolded assms(1)] Some, of w] err
        have "e' = e" by simp
        with skip parse pnone Some show ?thesis by blast
      next
        case None
        obtain km ge w2 where g: "getKeyspaceMeta env (KeyspaceName cfg) ?w1 = ((km, ge), w2)"
          by (metis prod.exhaust)
        from RegisterMetrics_resolve[OF skip[unfolded assms(1)]
               parse[unfolded assms(1) pnone] assms(2)[unfolded assms(1)]
               assms(3)[unfolded assms(1)] None g[unfolded assms(1)]] err
        have "ge = Some e" by (cases ge) auto
        with G[of "KeyspaceName cfg" ?w1] g
        have "fst (getKeyspaceMeta env (KeyspaceName cfg) ?w1) = (None, Some e)" by auto
        with skip parse pnone None show ?thesis by blast
      qed
    qed
  qed
  have B: "\<not> IsKeyspaceNameEmpty env keyspaceName \<and>
          (NewClient env addrs \<lparr>CAPath = [], CertPath = [], KeyPath = []\<rparr> (10 * Second) = Some e \<or>
           NewClient env addrs \<lparr>CAPath = [], CertPath = [], KeyPath = []\<rparr> (10 * Second) = None \<and>
             fst (getKeyspaceMeta env keyspaceName
                    (w @ [PdNewClient addrs \<lparr>CAPath = [], CertPath = [], KeyPath = []\<rparr>
                            (10 * Second)])) = (None, Some e))"
    if err: "fst (RegisterMetricsForBR env addrs keyspaceName w) = Some e"
  proof -
    let ?o = "\<lparr>CAPath = [], CertPath = [], KeyPath = []\<rparr>"
    let ?w1 = "w @ [PdNewClient addrs ?o (10 * Second)]"
    have ne: "\<not> IsKeyspaceNameEmpty env keyspaceName"
    proof
      assume "IsKeyspaceNameEmpty env keyspaceName"
      then have "RegisterMetricsForBR env addrs keyspaceName w = registerMetrics env None w"
        by (rule RegisterMetricsForBR_skip)
      with err R[of None w] show False by simp
    qed
    show ?thesis
    proof (cases "NewClient env addrs ?o (10 * Second)")
      case (Some e')
      from RegisterMetricsForBR_client_error[OF ne Some, of w] err
      have "e' = e" by simp
      with ne Some show ?thesis by blast
    next
      case None
      obtain km ge w2 where g: "getKeyspaceMeta env keyspaceName ?w1 = ((km, ge), w2)"
        by (metis prod.exhaust)
      from RegisterMetricsForBR_resolve[OF ne None g] err
      have "ge = Some e" by (cases ge) auto
      with G[of keyspaceName ?w1] g
      have "fst (getKeyspaceMeta env keyspaceName ?w1) = (None, Some e)" by auto
      with ne None show ?thesis by blast
    qed
  qed
  from R A B show ?thesis unfolding assms(4) by blast
qed

theorem registerMetrics_never_fails_witness:
  "fst (RegisterMetrics (exampleEnv\<lparr>LoadKeyspace := \<lambda>h n. (None, Some ''connection refused'')\<rparr>)
          []) = Some ''connection refused''
   \<and> fst (getKeyspaceMeta (exampleEnv\<lparr>LoadKeyspace := \<lambda>h n. (None, Some ''connection refused'')\<rparr>)
            ''tenant_7''
            [PdNewClient [''127.0.0.1:2379''] \<lparr>CAPath = [], CertPath = [], KeyPath = []\<rparr>
               3000000000]) = (None, Some ''connection refused'')
   \<and> fst (RegisterMetricsForBR (exampleEnv\<lparr>NewClient := \<lambda>a s t. Some ''tls setup failed''\<rparr>)
            [''pd0:2379''] ''tenant_x'' []) = Some ''tls setup failed''
   \<and> NewClient (exampleEnv\<lparr>NewClient := \<lambda>a s t. Some ''tls setup failed''\<rparr>)
        [''pd0:2379''] \<lparr>CAPath = [], CertPath = [], KeyPath = []\<rparr> (10 * Second) =
        Some ''tls setup failed''"
proof -
  let ?o = "\<lparr>CAPath = [], CertPath = [], KeyPath = []\<rparr>"
  let ?envC = "exampleEnv\<lparr>NewClient := \<lambda>a s t. Some ''tls setup failed''\<rparr>"
  let ?envR = "exampleEnv\<lparr>LoadKeyspace := \<lambda>h n. (None, Some ''connection refused'')\<rparr>"
  have a: "fst (RegisterMetrics ?envR []) = Some ''connection refused''"
    by (simp add: entry_defs)
  have b: "fst (RegisterMetricsForBR ?envC [''pd0:2379''] ''tenant_x'' []) =
             Some ''tls setup failed''"
    by (simp add: entry_defs)
  from registerMetrics_never_fails
         [where env = ?envR and cfg = exampleConfig and opt = ?o and timeoutSec = 3000000000
            and optBR = ?o and e = "''connection refused''" and w = "[]"] a
  have c: "fst (getKeyspaceMeta ?envR ''tenant_7'' [PdNewClient [''127.0.0.1:2379''] ?o 3000000000])
             = (None, Some ''connection refused'')"
    by (simp add: exampleEnv_def exampleConfig_def Second_def)
  from registerMetrics_never_fails
         [where env = ?envC and cfg = exampleConfig and opt = ?o and timeoutSec = 3000000000
            and optBR = ?o and e = "''tls setup failed''" and w = "[]"
            and addrs = "[''pd0:2379'']" and keyspaceName = "''tenant_x''"] b
  have d: "NewClient ?envC [''pd0:2379''] ?o (10 * Second) = Some ''tls setup failed''"
    by (simp add: exampleEnv_def exampleConfig_def Second_def)
  from a b c d show ?thesis by blast
qed

text \<open>
  C10. When the resolver returns neither metadata nor an error, both entry points succeed
  and append to the resolver's trace the initializer calls and the close, with no keyspace
  label anywhere in the events of the call. A first lookup that returns \<open>(nil, nil)\<close> makes
  the resolver return just that.
\<close>

theorem nil_metadata_registers_without_label:
  assumes "cfg = GetGlobalConfig env"
    and "opt = \<lparr>CAPath = ClusterSSLCA (Security cfg), CertPath = ClusterSSLCert (Security cfg),
                KeyPath = ClusterSSLKey (Security cfg)\<rparr>"
    and "timeoutSec = PDServerTimeout (PDClient cfg) * Second"
    and "optBR = \<lparr>CAPath = [], CertPath = [], KeyPath = []\<rparr>"
    and "uni = (if Store cfg = ''unistore'' then [Init unimetrics_RegisterMetrics] else [])"
  shows
    "(\<not> (IsKeyspaceNameEmpty env (KeyspaceName cfg) \<or> ToLower env (Store cfg) \<noteq> ''tikv'') \<and>
      ParsePath env (''tikv://'' @ Path cfg) = (pdAddrs, None) \<and>
      NewClient env pdAddrs opt timeoutSec = None \<and>
      getKeyspaceMeta env (KeyspaceName cfg) (w @ [PdNewClient pdAddrs opt timeoutSec]) =
        ((None, None), w2)
      \<longrightarrow> RegisterMetrics env w = (None, w2 @ initCalls @ uni @ [PdClose]) \<and>
          (\<exists>evs. w2 @ initCalls @ uni @ [PdClose] = w @ evs \<and>
                 filter isSetKeyspaceLabels evs = []))
     \<and> (\<not> IsKeyspaceNameEmpty env keyspaceName \<and>
        NewClient env addrs optBR (10 * Second) = None \<and>
        getKeyspaceMeta env keyspaceName (w @ [PdNewClient addrs optBR (10 * Second)]) =
          ((None, None), w2)
        \<longrightarrow> RegisterMetricsForBR env addrs keyspaceName w =
              (None, w2 @ initCalls @ uni @ [PdClose]) \<and>
            (\<exists>evs. w2 @ initCalls @ uni @ [PdClose] = w @ evs \<and>
                   filter isSetKeyspaceLabels evs = []))
     \<and> (0 < DefaultMaxRetries env \<and> LoadKeyspace env w1 name = (None, None)
        \<longrightarrow> getKeyspaceMeta env name w1 = ((None, None), w1 @ [PdLoadKeyspace name]))"
proof -
  have nolabel: "\<exists>evs. w2 @ initCalls @ uni @ [PdClose] = w @ evs \<and>
                   filter isSetKeyspaceLabels evs = []"
    if g: "getKeyspaceMeta env name (w @ [PdNewClient a s t]) = (res, w2)" for name a s t res
  proof -
    from getKeyspaceMeta_cases[of name env "w @ [PdNewClient a s t]"] g obtain evs
      where evs: "set evs \<subseteq> {PdLoadKeyspace name, Sleep (RetryInterval env)}"
        and w2: "w2 = (w @ [PdNewClient a s t]) @ evs"
      by auto
    show ?thesis
      by (rule exI[of _ "[PdNewClient a s t] @ evs @ initCalls @ uni @ [PdClose]"])
         (simp add: w2 retry_events_filters(1)[OF evs] initCalls_filters assms(5))
  qed
  have A: "RegisterMetrics env w = (None, w2 @ initCalls @ uni @ [PdClose])"
    if skip: "\<not> (IsKeyspaceNameEmpty env (KeyspaceName cfg) \<or> ToLower env (Store cfg) \<noteq> ''tikv'')"
      and parse: "ParsePath env (''tikv://'' @ Path cfg) = (pdAddrs, None)"
      and cli: "NewClient env pdAddrs opt timeoutSec = None"
      and g: "getKeyspaceMeta env (KeyspaceName cfg) (w @ [PdNewClient pdAddrs opt timeoutSec]) =
                ((None, None), w2)"
    using RegisterMetrics_resolve[OF skip[unfolded assms(1)] parse[unfolded assms(1)]
            assms(2)[unfolded assms(1)] assms(3)[unfolded assms(1)] cli g[unfolded assms(1)]]
    by (simp add: registerMetrics_eq assms(5) assms(1))
  have B: "RegisterMetricsForBR env addrs keyspaceName w =
             (None, w2 @ initCalls @ uni @ [PdClose])"
    if ne: "\<not> IsKeyspaceNameEmpty env keyspaceName"
      and cli: "NewClient env addrs \<lparr>CAPath = [], CertPath = [], KeyPath = []\<rparr> (10 * Second) = None"
      and g: "getKeyspaceMeta env keyspaceName
                (w @ [PdNewClient addrs \<lparr>CAPath = [], CertPath = [], KeyPath = []\<rparr>
                        (10 * Second)]) = ((None, None), w2)"
    using RegisterMetricsForBR_resolve[OF ne cli g]
    by (simp add: registerMetrics_eq assms(5) assms(1))
  have C: "getKeyspaceMeta env name w1 = ((None, None), w1 @ [PdLoadKeyspace name])"
    if "0 < DefaultMaxRetries env" and "LoadKeyspace env w1 name = (None, None)"
    using that by (rule getKeyspaceMeta_first_success)
  from A B C nolabel show ?thesis unfolding assms(4) by blast
qed

theorem nil_metadata_registers_without_label_witness:
  "RegisterMetrics (exampleEnv\<lparr>LoadKeyspace := \<lambda>h n. (None, None)\<rparr>) [] =
     (None,
      [PdNewClient [''127.0.0.1:2379''] \<lparr>CAPath = [], CertPath = [], KeyPath = []\<rparr> 3000000000,
       PdLoadKeyspace ''tenant_7''] @ initCalls @ [PdClose])
   \<and> RegisterMetricsForBR (exampleEnv\<lparr>LoadKeyspace := \<lambda>h n. (None, None)\<rparr>)
       [''pd0:2379''] ''tenant_x'' [] =
     (None,
      [PdNewClient [''pd0:2379''] \<lparr>CAPath = [], CertPath = [], KeyPath = []\<rparr> 10000000000,
       PdLoadKeyspace ''tenant_x''] @ initCalls @ [PdClose])
   \<and> getKeyspaceMeta (exampleEnv\<lparr>LoadKeyspace := \<lambda>h n. (None, None)\<rparr>) ''tenant_7'' [] =
       ((None, None), [PdLoadKeyspace ''tenant_7''])"
proof -
  let ?o = "\<lparr>CAPath = [], CertPath = [], KeyPath = []\<rparr>"
  let ?env = "exampleEnv\<lparr>LoadKeyspace := \<lambda>h n. (None, None)\<rparr>"
  have c: "getKeyspaceMeta ?env ''tenant_7'' [] = ((None, None), [PdLoadKeyspace ''tenant_7''])"
    using nil_metadata_registers_without_label
            [where env = ?env and cfg = exampleConfig and opt = ?o and timeoutSec = 3000000000
               and optBR = ?o and uni = "[]" and ?w1.0 = "[]" and name = "''tenant_7''"]
    by (simp add: exampleEnv_def exampleConfig_def Second_def)
  have g1: "getKeyspaceMeta ?env ''tenant_7'' [PdNewClient [''127.0.0.1:2379''] ?o 3000000000] =
              ((None, None),
               [PdNewClient [''127.0.0.1:2379''] ?o 3000000000, PdLoadKeyspace ''tenant_7''])"
    by (simp add: example_defs)
  have a: "RegisterMetrics ?env [] =
             (None, [PdNewClient [''127.0.0.1:2379''] ?o 3000000000, PdLoadKeyspace ''tenant_7'']
                    @ initCalls @ [PdClose])"
    using nil_metadata_registers_without_label
            [where env = ?env and cfg = exampleConfig and opt = ?o and timeoutSec = 3000000000
               and optBR = ?o and uni = "[]" and w = "[]" and pdAddrs = "[''127.0.0.1:2379'']"
               and ?w2.0 = "[PdNewClient [''127.0.0.1:2379''] ?o 3000000000,
                             PdLoadKeyspace ''tenant_7'']"] g1
    by (simp add: exampleEnv_def exampleConfig_def Second_def ToLower_def isASCII_def
          lowerASCII_def)
  have g2: "getKeyspaceMeta ?env ''tenant_x'' [PdNewClient [''pd0:2379''] ?o 10000000000] =
              ((None, None),
               [PdNewClient [''pd0:2379''] ?o 10000000000, PdLoadKeyspace ''tenant_x''])"
    by (simp add: example_defs)
  have b: "RegisterMetricsForBR ?env [''pd0:2379''] ''tenant_x'' [] =
             (None, [PdNewClient [''pd0:2379''] ?o 10000000000, PdLoadKeyspace ''tenant_x'']
                    @ initCalls @ [PdClose])"
    using nil_metadata_registers_without_label
            [where env = ?env and cfg = exampleConfig and opt = ?o and timeoutSec = 3000000000
               and optBR = ?o and uni = "[]" and w = "[]" and addrs = "[''pd0:2379'']"
               and keyspaceName = "''tenant_x''"
               and ?w2.0 = "[PdNewClient [''pd0:2379''] ?o 10000000000,
                             PdLoadKeyspace ''tenant_x'']"] g2
    by (simp add: exampleEnv_def exampleConfig_def Second_def)
  from a b c show ?thesis by blast
qed

end
